theory Spec2Isabelle
  imports Main "HOL-Library.Char_ord" "HOL-Library.List_Lexorder"
begin

section \<open>Python strings\<close>

text \<open>
  The converter's \<^verbatim>\<open>_main\<close> reads its input as Latin-1, so a Python character is one
  code point below 256 and a Python \<^verbatim>\<open>str\<close> is a \<^typ>\<open>string\<close>. The predicates below
  are the Unicode classes Python uses, restricted to those 256 code points.
\<close>

definition ord :: "char \<Rightarrow> nat" where
  "ord c = of_char c"

text \<open>\<^verbatim>\<open>\d\<close> of the \<^verbatim>\<open>re\<close> module: a decimal digit; \<^verbatim>\<open>\D\<close> is its complement.\<close>

definition isdigit :: "char \<Rightarrow> bool" where
  "isdigit c \<longleftrightarrow> 48 \<le> ord c \<and> ord c \<le> 57"

text \<open>The characters \<^verbatim>\<open>str.strip()\<close> removes: those for which \<^verbatim>\<open>str.isspace\<close> holds.\<close>

definition isspace :: "char \<Rightarrow> bool" where
  "isspace c \<longleftrightarrow> (9 \<le> ord c \<and> ord c \<le> 13) \<or> (28 \<le> ord c \<and> ord c \<le> 32)
     \<or> ord c = 133 \<or> ord c = 160"

definition isalpha_char :: "char \<Rightarrow> bool" where
  "isalpha_char c \<longleftrightarrow> (65 \<le> ord c \<and> ord c \<le> 90) \<or> (97 \<le> ord c \<and> ord c \<le> 122)
     \<or> ord c = 170 \<or> ord c = 181 \<or> ord c = 186
     \<or> (192 \<le> ord c \<and> ord c \<le> 214) \<or> (216 \<le> ord c \<and> ord c \<le> 246)
     \<or> 248 \<le> ord c"

text \<open>\<^verbatim>\<open>str.isalpha()\<close>: at least one character, and all of them letters.\<close>

definition isalpha :: "string \<Rightarrow> bool" where
  "isalpha s \<longleftrightarrow> s \<noteq> [] \<and> list_all isalpha_char s"

text \<open>
  \<^verbatim>\<open>str.upper()\<close>, character by character. The sharp s becomes two letters. The micro
  sign and the y with diaeresis have their capitals outside Latin-1; they are kept as
  they are, which no comparison below can tell apart: every string an upper-cased value
  is compared with is ASCII.
\<close>

definition upper_char :: "char \<Rightarrow> string" where
  "upper_char c =
     (if 97 \<le> ord c \<and> ord c \<le> 122 then [char_of (ord c - 32)]
      else if ord c = 223 then ''SS''
      else if (224 \<le> ord c \<and> ord c \<le> 246) \<or> (248 \<le> ord c \<and> ord c \<le> 254)
        then [char_of (ord c - 32)]
      else [c])"

definition upper :: "string \<Rightarrow> string" where
  "upper s = concat (map upper_char s)"

definition strip :: "string \<Rightarrow> string" where
  "strip s = rev (dropWhile isspace (rev (dropWhile isspace s)))"

definition startswith :: "string \<Rightarrow> string \<Rightarrow> bool" where
  "startswith s p \<longleftrightarrow> take (length p) s = p"

text \<open>\<^verbatim>\<open>sub in s\<close>: \<^verbatim>\<open>sub\<close> occurs in \<^verbatim>\<open>s\<close> as a contiguous substring.\<close>

fun contains :: "string \<Rightarrow> string \<Rightarrow> bool" where
  "contains [] sub = (sub = [])"
| "contains (c # s) sub = (startswith (c # s) sub \<or> contains s sub)"

text \<open>\<^verbatim>\<open>s.replace(c, '', 1)\<close>: the first occurrence of the character is removed.\<close>

fun remove_first :: "char \<Rightarrow> string \<Rightarrow> string" where
  "remove_first c [] = []"
| "remove_first c (x # s) = (if x = c then s else x # remove_first c s)"

text \<open>\<^verbatim>\<open>re.compile("\d+").search(s)\<close> finds a match iff some character of \<^verbatim>\<open>s\<close> is a digit.\<close>

definition search_digits :: "string \<Rightarrow> bool" where
  "search_digits s \<longleftrightarrow> list_ex isdigit s"

section \<open>Exceptions and transactions\<close>

text \<open>
  The exceptions the converter can raise. \<open>LibraryError\<close> stands for an exception other
  than \<^verbatim>\<open>ValueError\<close> that escapes from the date library.
\<close>

datatype exn = ValueError string | IndexError | KeyError | AttributeError | LibraryError
  | ParseException

text \<open>A transaction is a Python dict from field name to string value.\<close>

type_synonym txn = "string \<rightharpoonup> string"

text \<open>\<^verbatim>\<open>txn.get(key, default)\<close>\<close>

definition get :: "txn \<Rightarrow> string \<Rightarrow> string \<Rightarrow> string" where
  "get t k d = (case t k of None \<Rightarrow> d | Some v \<Rightarrow> v)"

text \<open>
  The attributes of an \<^verbatim>\<open>IifConverter\<close> that the date and cleanup methods read or
  write. \<open>txns_by_date\<close> is a dict whose keys are later sorted; it is kept as an
  association list in insertion order. \<open>start_date\<close> and \<open>end_date\<close> do not exist until
  they are assigned.
\<close>

record converter =
  accttype :: string
  curdef :: "string option"
  dayfirst :: bool
  txns_by_date :: "(string \<times> txn list) list"
  start_date :: "string option"
  end_date :: "string option"

text \<open>The state \<^verbatim>\<open>__init__\<close> sets up from its arguments before it parses anything.\<close>

definition new_converter :: "string \<Rightarrow> string option \<Rightarrow> bool \<Rightarrow> converter" where
  "new_converter at cd df =
     \<lparr>accttype = at, curdef = cd, dayfirst = df, txns_by_date = [],
      start_date = None, end_date = None\<rparr>"

text \<open>The class attribute \<^verbatim>\<open>txn_types\<close>, in the order it is written.\<close>

definition txn_types :: "(string \<times> string) list" where
  "txn_types =
     [(''ACH'', ''ACH''), (''CHECK CARD'', ''POS''), (''CREDIT'', ''CREDIT''),
      (''DBT'', ''DEBIT''), (''DEBIT'', ''DEBIT''), (''INT'', ''INT''), (''DIV'', ''DIV''),
      (''FEE'', ''FEE''), (''SRVCHG'', ''SRVCHG''), (''DEP'', ''DEP''), (''DEPOSIT'', ''DEP''),
      (''ATM'', ''ATM''), (''POS'', ''POS''), (''XFER'', ''XFER''), (''CHECK'', ''CHECK''),
      (''PAYMENT'', ''PAYMENT''), (''CASH'', ''CASH''), (''DIRECTDEP'', ''DIRECTDEP''),
      (''DIRECTDEBIT'', ''DIRECTDEBIT''), (''REPEATPMT'', ''REPEATPMT''),
      (''OTHER'', ''OTHER'')]"

section \<open>External libraries\<close>

text \<open>
  The converter calls three libraries whose code is not part of the program; each is a
  parameter of the functions that use it.

  \<^item> \<^verbatim>\<open>dateutil.parser.parse(s, dayfirst=b)\<close> returns a date, raises \<^verbatim>\<open>ValueError\<close>
    (its report of a string it cannot read), or raises some other exception.
  \<^item> \<^verbatim>\<open>str(Decimal(s).quantize(Decimal('.01')))\<close> returns a string or raises.
  \<^item> \<^verbatim>\<open>IifParser.parse\<close> hands the text to the grammar library, which returns the parsed
    sections or raises.

  The clock read by \<^verbatim>\<open>strftime("%Y%m%d", localtime())\<close> is a parameter as well.
\<close>

record date =
  year :: nat
  month :: nat
  day :: nat

datatype dateutil_result = Parsed date | RaisesValueError | RaisesOther

type_synonym dateutil = "string \<Rightarrow> bool \<Rightarrow> dateutil_result"

type_synonym quantize = "string \<Rightarrow> string option"

text \<open>
  \<^verbatim>\<open>d.strftime("%Y%m%d")\<close>. The C library prints the year as it is, without padding, and
  the month and the day with two digits each. A Python date has a year from 1 to 9999.
\<close>

definition digit_char :: "nat \<Rightarrow> char" where
  "digit_char n = char_of (48 + n mod 10)"

definition year_digits :: "nat \<Rightarrow> string" where
  "year_digits y =
     (if y < 10 then [digit_char y]
      else if y < 100 then [digit_char (y div 10), digit_char y]
      else if y < 1000 then [digit_char (y div 100), digit_char (y div 10), digit_char y]
      else [digit_char (y div 1000), digit_char (y div 100), digit_char (y div 10),
            digit_char y])"

definition strftime_Ymd :: "date \<Rightarrow> string" where
  "strftime_Ymd d =
     year_digits (year d)
     @ [digit_char (month d div 10), digit_char (month d),
        digit_char (day d div 10), digit_char (day d)]"

text \<open>
  \<^verbatim>\<open>int(s)\<close> on a string: surrounding whitespace is dropped, one sign may lead, and the
  rest is decimal digits, with single underscores allowed between digits; more than 4300
  digits are refused, the interpreter's default limit. \<open>None\<close> is the \<^verbatim>\<open>ValueError\<close>.

  The whitespace \<^verbatim>\<open>int\<close> drops is not that of \<^verbatim>\<open>str.strip()\<close>: the separators U+001C to
  U+001F are kept and make the conversion fail.
\<close>

definition int_space :: "char \<Rightarrow> bool" where
  "int_space c \<longleftrightarrow> (9 \<le> ord c \<and> ord c \<le> 13) \<or> ord c = 32 \<or> ord c = 133 \<or> ord c = 160"

definition int_strip :: "string \<Rightarrow> string" where
  "int_strip s = rev (dropWhile int_space (rev (dropWhile int_space s)))"

definition int_digits_ok :: "string \<Rightarrow> bool" where
  "int_digits_ok b \<longleftrightarrow> b \<noteq> [] \<and> isdigit (hd b) \<and> isdigit (last b)
     \<and> list_all (\<lambda>c. isdigit c \<or> c = CHR ''_'') b \<and> \<not> contains b ''__''
     \<and> length (filter isdigit b) \<le> 4300"

definition digits_value :: "string \<Rightarrow> int" where
  "digits_value b = foldl (\<lambda>a c. 10 * a + (int (ord c) - 48)) 0 (filter isdigit b)"

definition py_int :: "string \<Rightarrow> int option" where
  "py_int s =
     (let t = int_strip s;
          signed = (t \<noteq> [] \<and> (hd t = CHR ''+'' \<or> hd t = CHR ''-''));
          body = (if signed then tl t else t)
      in if int_digits_ok body
         then Some (if signed \<and> hd t = CHR ''-'' then - digits_value body else digits_value body)
         else None)"

definition int_error :: "string \<Rightarrow> exn" where
  "int_error s = ValueError (''invalid literal for int() with base 10: '' @ [CHR 0x27] @ s @ [CHR 0x27])"

section \<open>Date methods\<close>

text \<open>What \<^verbatim>\<open>_parse_date\<close> returns: a date, or the string \<^verbatim>\<open>"UNKNOWN"\<close>.\<close>

datatype parsed_date = PDate date | PUnknown

definition unrecognized :: "string \<Rightarrow> exn" where
  "unrecognized txn_date =
     ValueError (''Unrecognized date format: '' @ [CHR 0x27] @ txn_date @ [CHR 0x27] @ ''.'')"

definition slashified :: "string \<Rightarrow> string" where
  "slashified txn_date = take 2 txn_date @ ''/'' @ take 2 (drop 2 txn_date) @ ''/'' @ drop 4 txn_date"

text \<open>
  \<^verbatim>\<open>_parse_date\<close>. The outer \<^verbatim>\<open>try\<close> catches \<^verbatim>\<open>ValueError\<close> only, so another exception
  of the library escapes; the inner one catches everything.
\<close>

definition parse_date :: "dateutil \<Rightarrow> string \<Rightarrow> bool \<Rightarrow> exn + parsed_date" where
  "parse_date P txn_date df =
     (if txn_date \<noteq> ''UNKNOWN'' then
        (if \<not> isalpha txn_date then
           (case P txn_date df of
              Parsed d \<Rightarrow> Inr (PDate d)
            | RaisesOther \<Rightarrow> Inl LibraryError
            | RaisesValueError \<Rightarrow>
                (if length txn_date = 8 then
                   (case py_int txn_date of
                      None \<Rightarrow> Inl (unrecognized txn_date)
                    | Some date_int \<Rightarrow>
                        (case P (slashified txn_date) df of
                           Parsed d \<Rightarrow> Inr (PDate d)
                         | _ \<Rightarrow> Inl (unrecognized txn_date)))
                 else Inl (unrecognized txn_date)))
         else Inl (unrecognized txn_date))
      else Inr PUnknown)"

text \<open>
  \<^verbatim>\<open>_check_date_format\<close>. \<^verbatim>\<open>re.search("\D", txn_date)\<close> finds the first character that is
  not a digit; the text before it is the longest prefix of digits.
\<close>

definition check_date_format :: "converter \<Rightarrow> parsed_date \<Rightarrow> string \<Rightarrow> exn + converter" where
  "check_date_format conv parsed_date txn_date =
     (if list_ex (\<lambda>c. \<not> isdigit c) txn_date then
        (case py_int (takeWhile isdigit txn_date) of
           None \<Rightarrow> Inl (int_error (takeWhile isdigit txn_date))
         | Some maybe_day \<Rightarrow>
             Inr (if parsed_date \<noteq> PUnknown \<and> 13 \<le> maybe_day \<and> maybe_day \<le> 31
                  then conv\<lparr>dayfirst := True\<rparr> else conv))
      else Inr conv)"

text \<open>\<^verbatim>\<open>_guess_formats\<close>: the loop over the transactions; an exception ends it.\<close>

fun guess_formats :: "dateutil \<Rightarrow> converter \<Rightarrow> txn list \<Rightarrow> exn + converter" where
  "guess_formats P conv [] = Inr conv"
| "guess_formats P conv (txn # rest) =
     (let txn_date = get txn ''Date'' ''UNKNOWN'';
          txn_currency = get txn ''Currency'' ''UNKNOWN''
      in case parse_date P txn_date False of
           Inl e \<Rightarrow> Inl e
         | Inr parsed_date \<Rightarrow>
             (case check_date_format conv parsed_date txn_date of
                Inl e \<Rightarrow> Inl e
              | Inr conv' \<Rightarrow>
                  guess_formats P
                    (if curdef conv' = None \<and> txn_currency = ''^EUR''
                     then conv'\<lparr>curdef := Some ''EUR''\<rparr> else conv')
                    rest))"

text \<open>
  The attributes of the converter at the moment \<^verbatim>\<open>_guess_formats\<close> ends, by returning or
  by an exception: both methods called in the loop raise before they assign anything, so
  an exception leaves the attributes as the transactions before had set them.
\<close>

fun guess_formats_state :: "dateutil \<Rightarrow> converter \<Rightarrow> txn list \<Rightarrow> converter" where
  "guess_formats_state P conv [] = conv"
| "guess_formats_state P conv (txn # rest) =
     (let txn_date = get txn ''Date'' ''UNKNOWN'';
          txn_currency = get txn ''Currency'' ''UNKNOWN''
      in case parse_date P txn_date False of
           Inl e \<Rightarrow> conv
         | Inr parsed_date \<Rightarrow>
             (case check_date_format conv parsed_date txn_date of
                Inl e \<Rightarrow> conv
              | Inr conv' \<Rightarrow>
                  guess_formats_state P
                    (if curdef conv' = None \<and> txn_currency = ''^EUR''
                     then conv'\<lparr>curdef := Some ''EUR''\<rparr> else conv')
                    rest))"

section \<open>Cleanup methods\<close>

text \<open>\<^verbatim>\<open>_clean_txn_number\<close>: each \<^verbatim>\<open>del\<close> is reached only with the key present.\<close>

definition clean_txn_number :: "converter \<Rightarrow> txn \<Rightarrow> txn" where
  "clean_txn_number conv txn =
     (let txn_number = strip (get txn ''Number'' ''UNKNOWN'') in
      if txn_number = ''N/A'' then txn(''Number'' := None)
      else if startswith txn_number ''XXXX-XXXX-XXXX'' then txn(''Number'' := None)
      else if txn_number \<noteq> ''UNKNOWN'' \<and> accttype conv = ''CREDITCARD''
        then txn(''Number'' := None)
      else if txn_number = ''0000000000'' \<and> accttype conv \<noteq> ''CREDITCARD''
        then txn(''Number'' := None)
      else if txn_number \<noteq> ''UNKNOWN'' \<and> search_digits txn_number
        then txn(''Type'' \<mapsto> ''CHECK'')
      else txn)"

text \<open>\<^verbatim>\<open>_clean_txn_type\<close>: the loop stops at the first key found in the category or memo.\<close>

definition clean_txn_type :: "txn \<Rightarrow> txn" where
  "clean_txn_type txn =
     (let txn_type = get txn ''Type'' ''UNKNOWN'' in
      if upper txn_type \<in> set (map fst txn_types) then txn(''Type'' \<mapsto> upper txn_type)
      else
        let txn_memo = get txn ''Memo'' ''UNKNOWN'';
            txn_category = get txn ''Category'' ''UNKNOWN''
        in case find (\<lambda>typestr. contains (upper txn_category) typestr
                                \<or> contains (upper txn_memo) typestr) (map fst txn_types) of
             Some typestr \<Rightarrow> txn(''Type'' \<mapsto> typestr)
           | None \<Rightarrow> txn)"


text \<open>\<^verbatim>\<open>_clean_txn_date\<close>. \<^verbatim>\<open>_parse_date\<close> returns a date here, as the string is not \<^verbatim>\<open>"UNKNOWN"\<close>.\<close>

definition clean_txn_date :: "dateutil \<Rightarrow> converter \<Rightarrow> txn \<Rightarrow> exn + txn" where
  "clean_txn_date P conv txn =
     (let txn_date = strip (get txn ''Date'' ''UNKNOWN'') in
      if txn_date \<noteq> ''UNKNOWN'' then
        (case parse_date P txn_date (dayfirst conv) of
           Inl e \<Rightarrow> Inl e
         | Inr (PDate d) \<Rightarrow> Inr (txn(''Date'' \<mapsto> strftime_Ymd d))
         | Inr PUnknown \<Rightarrow> Inl AttributeError)
      else Inr (txn(''Date'' \<mapsto> ''UNKNOWN'')))"

text \<open>
  \<^verbatim>\<open>_clean_txn_amount\<close>. \<^verbatim>\<open>txn_amount[-1]\<close> raises \<^verbatim>\<open>IndexError\<close> on the empty string;
  a failure of the decimal conversion is caught and the string kept.
\<close>

definition clean_txn_amount :: "quantize \<Rightarrow> txn \<Rightarrow> exn + txn" where
  "clean_txn_amount Q txn =
     (let txn_amount = get txn ''Amount'' ''00.00'';
          txn_amount2 = get txn ''Amount2'' ''00.00''
      in if txn_amount = ''-'' \<or> txn_amount = '' ''
         then Inl (ValueError ''Transaction amount is undefined.'')
         else
           let a = remove_first CHR ''$'' (strip (if txn_amount = ''00.00'' then txn_amount2 else txn_amount))
           in if a = [] then Inl IndexError
              else
                let b = (if last a = CHR ''-'' then CHR ''-'' # butlast a else a)
                in Inr (txn(''Amount'' \<mapsto> (case Q b of Some q \<Rightarrow> q | None \<Rightarrow> b))))"

definition txn_sign :: "string \<Rightarrow> string" where
  "txn_sign txn_amount = (if startswith txn_amount ''-'' then ''debit'' else ''credit'')"

text \<open>
  \<^verbatim>\<open>_clean_txn_payee\<close>. The last statement reads \<^verbatim>\<open>txn["Payee"]\<close>, which raises
  \<^verbatim>\<open>KeyError\<close> on a missing key.
\<close>

definition clean_txn_payee :: "converter \<Rightarrow> txn \<Rightarrow> exn + txn" where
  "clean_txn_payee conv txn =
     (let txn_payee = get txn ''Payee'' ''UNKNOWN'';
          txn_memo = get txn ''Memo'' ''UNKNOWN'';
          txn_category = get txn ''Category'' ''UNKNOWN'';
          txn_number = get txn ''Number'' ''UNKNOWN'';
          txn_type = get txn ''Type'' ''UNKNOWN'';
          txn_amount = get txn ''Amount'' ''UNKNOWN'';
          sign = txn_sign txn_amount;
          txn1 =
            (if txn_payee = ''UNKNOWN'' then
               (if txn_number \<noteq> ''UNKNOWN''
                   \<and> (accttype conv = ''CHECKING'' \<or> accttype conv = ''SAVINGS'')
                  then txn(''Payee'' \<mapsto> ''Check #'' @ txn_number, ''Type'' \<mapsto> ''CHECK'')
                else if txn_type = ''INT'' \<and> sign = ''debit''
                  then txn(''Payee'' \<mapsto> ''Interest paid'')
                else if txn_type = ''INT'' \<and> sign = ''credit''
                  then txn(''Payee'' \<mapsto> ''Interest earned'')
                else if txn_type = ''ATM'' \<and> sign = ''debit''
                  then txn(''Payee'' \<mapsto> ''ATM Withdrawal'')
                else if txn_type = ''ATM'' \<and> sign = ''credit''
                  then txn(''Payee'' \<mapsto> ''ATM Deposit'')
                else if txn_type = ''POS'' \<and> sign = ''debit''
                  then txn(''Payee'' \<mapsto> ''Point of Sale Payment'')
                else if txn_type = ''POS'' \<and> sign = ''credit''
                  then txn(''Payee'' \<mapsto> ''Point of Sale Credit'')
                else if txn_memo \<noteq> ''UNKNOWN''
                  then txn(''Payee'' \<mapsto> txn_memo)
                else if txn_category \<noteq> ''UNKNOWN''
                  then txn(''Payee'' \<mapsto> txn_category)
                else if txn_type = ''UNKNOWN'' \<and> sign = ''debit''
                  then txn(''Payee'' \<mapsto> ''Other Debit'', ''Type'' \<mapsto> ''DEBIT'')
                else if txn_type = ''UNKNOWN'' \<and> sign = ''credit''
                  then txn(''Payee'' \<mapsto> ''Other Credit'', ''Type'' \<mapsto> ''CREDIT'')
                else txn)
             else txn);
          txn2 =
            (if txn1 ''Type'' = None \<and> sign = ''debit'' then txn1(''Type'' \<mapsto> ''DEBIT'')
             else if txn1 ''Type'' = None \<and> sign = ''credit'' then txn1(''Type'' \<mapsto> ''CREDIT'')
             else txn1)
      in if txn_memo \<noteq> ''UNKNOWN'' then
           (case txn2 ''Payee'' of
              None \<Rightarrow> Inl KeyError
            | Some p \<Rightarrow> Inr (txn2(''Payee'' \<mapsto> p @ '' ('' @ txn_memo @ '')'')))
         else Inr txn2)"

text \<open>\<^verbatim>\<open>_clean_txn\<close>: the five steps in order; the first exception ends it.\<close>

definition clean_txn :: "dateutil \<Rightarrow> quantize \<Rightarrow> converter \<Rightarrow> txn \<Rightarrow> exn + txn" where
  "clean_txn P Q conv txn =
     (case clean_txn_date P conv txn of
        Inl e \<Rightarrow> Inl e
      | Inr txn1 \<Rightarrow>
          (case clean_txn_amount Q txn1 of
             Inl e \<Rightarrow> Inl e
           | Inr txn2 \<Rightarrow> clean_txn_payee conv (clean_txn_type (clean_txn_number conv txn2))))"

text \<open>\<^verbatim>\<open>d[k] = v\<close> on a dict kept in insertion order, and \<^verbatim>\<open>d.get(k, [])\<close>.\<close>

fun dict_set :: "string \<Rightarrow> 'v \<Rightarrow> (string \<times> 'v) list \<Rightarrow> (string \<times> 'v) list" where
  "dict_set k v [] = [(k, v)]"
| "dict_set k v (p # ps) = (if fst p = k then (k, v) # ps else p # dict_set k v ps)"

definition get_list :: "(string \<times> 'v list) list \<Rightarrow> string \<Rightarrow> 'v list" where
  "get_list d k = (case map_of d k of None \<Rightarrow> [] | Some vs \<Rightarrow> vs)"

text \<open>
  The loop of \<^verbatim>\<open>_clean_txn_list\<close>: a \<^verbatim>\<open>ValueError\<close> from \<^verbatim>\<open>_clean_txn\<close> is caught and the
  transaction is not stored; any other exception leaves the loop.
\<close>

fun clean_loop :: "dateutil \<Rightarrow> quantize \<Rightarrow> converter \<Rightarrow> txn list \<Rightarrow> exn + converter" where
  "clean_loop P Q conv [] = Inr conv"
| "clean_loop P Q conv (txn # rest) =
     (case clean_txn P Q conv txn of
        Inl (ValueError m) \<Rightarrow> clean_loop P Q conv rest
      | Inl e \<Rightarrow> Inl e
      | Inr txn' \<Rightarrow>
          (case txn' ''Date'' of
             None \<Rightarrow> Inl KeyError
           | Some txn_date \<Rightarrow>
               clean_loop P Q
                 (conv\<lparr>txns_by_date :=
                    dict_set txn_date (get_list (txns_by_date conv) txn_date @ [txn'])
                      (txns_by_date conv)\<rparr>)
                 rest))"

text \<open>
  \<^verbatim>\<open>_clean_txn_list\<close>: after the loop, the date range. \<^verbatim>\<open>date_list[0]\<close> raises
  \<^verbatim>\<open>IndexError\<close> on an empty list. \<open>today\<close> is the clock's date as \<^verbatim>\<open>YYYYMMDD\<close>.
\<close>

definition clean_txn_list ::
  "dateutil \<Rightarrow> quantize \<Rightarrow> string \<Rightarrow> converter \<Rightarrow> txn list \<Rightarrow> exn + converter" where
  "clean_txn_list P Q today conv txn_list =
     (case clean_loop P Q conv txn_list of
        Inl e \<Rightarrow> Inl e
      | Inr conv' \<Rightarrow>
          (if length txn_list > 0 then
             (let date_list = sort (map fst (txns_by_date conv')) in
              if date_list = [] then Inl IndexError
              else Inr (conv'\<lparr>start_date := Some (hd date_list),
                              end_date := Some (last date_list)\<rparr>))
           else Inr (conv'\<lparr>start_date := Some today, end_date := Some today\<rparr>)))"

section \<open>Transaction extraction and construction\<close>

text \<open>
  What the grammar returns for one statement section: the field names of the
  \<^verbatim>\<open>!TRNS\<close> and \<^verbatim>\<open>!SPL\<close> header lines, and the transaction blocks, each with the fields of its
  \<^verbatim>\<open>TRNS\<close> line and of its \<^verbatim>\<open>SPL\<close> lines.
\<close>

record trn_rec =
  TRN :: "string list"
  SPL :: "string list list"

record trns_block =
  TRNS_FLDS :: "string list"
  SPL_FLDS :: "string list"
  TRNS :: "trn_rec list"

type_synonym grammar = "string \<Rightarrow> exn + trns_block list"

definition trns_items :: "(string \<times> string) list" where
  "trns_items =
     [(''TRNSID'', ''Number''), (''TIMESTAMP'', ''Timestamp''), (''TRNSTYPE'', ''Type''),
      (''DATE'', ''Date''), (''ACCNT'', ''Accnt''), (''NAME'', ''Payee''),
      (''CLASS'', ''Category''), (''AMOUNT'', ''Amount''), (''DOCNUM'', ''Docnum''),
      (''MEMO'', ''Memo''), (''CLEAR'', ''Clear''), (''PRICE'', ''Price'')]"

text \<open>
  The inner loop of \<^verbatim>\<open>get_txn_list\<close>: field \<open>i\<close> of the record is stored under the
  canonical name of header field \<open>i\<close>.
\<close>

fun fill_txn :: "string list \<Rightarrow> string list \<Rightarrow> txn \<Rightarrow> exn + txn" where
  "fill_txn trns_fields [] txn = Inr txn"
| "fill_txn [] (fld # trn) txn = Inl IndexError"
| "fill_txn (f # trns_fields) (fld # trn) txn =
     (case map_of trns_items f of
        None \<Rightarrow> Inl KeyError
      | Some k \<Rightarrow> fill_txn trns_fields trn (txn(k \<mapsto> fld)))"

fun get_txn_list_loop :: "string list \<Rightarrow> trn_rec list \<Rightarrow> exn + txn list" where
  "get_txn_list_loop trns_fields [] = Inr []"
| "get_txn_list_loop trns_fields (trn_rec # trns) =
     (case fill_txn trns_fields (TRN trn_rec) Map.empty of
        Inl e \<Rightarrow> Inl e
      | Inr txn \<Rightarrow>
          (case get_txn_list_loop trns_fields trns of
             Inl e \<Rightarrow> Inl e
           | Inr txn_list \<Rightarrow> Inr (txn # txn_list)))"

definition get_txn_list :: "trns_block \<Rightarrow> exn + txn list" where
  "get_txn_list trns_block = get_txn_list_loop (TRNS_FLDS trns_block) (TRNS trns_block)"

text \<open>\<^verbatim>\<open>_extract_txn_list\<close>: the first section only.\<close>

definition extract_txn_list :: "trns_block list \<Rightarrow> exn + txn list" where
  "extract_txn_list sections =
     (case sections of [] \<Rightarrow> Inl IndexError | trns_block # _ \<Rightarrow> get_txn_list trns_block)"

text \<open>
  \<^verbatim>\<open>IifConverter.__init__\<close>: parse, extract, guess the formats. The call of
  \<^verbatim>\<open>_clean_txn_list\<close> that follows in the source is commented out, so construction ends
  after the first pass.
\<close>

definition IifConverter_init ::
  "grammar \<Rightarrow> dateutil \<Rightarrow> string \<Rightarrow> string \<Rightarrow> string option \<Rightarrow> bool \<Rightarrow> exn + converter" where
  "IifConverter_init G P iif at cd df =
     (case G iif of
        Inl e \<Rightarrow> Inl e
      | Inr parsed_iif \<Rightarrow>
          (case extract_txn_list parsed_iif of
             Inl e \<Rightarrow> Inl e
           | Inr txn_list \<Rightarrow> guess_formats P (new_converter at cd df) txn_list))"

section \<open>Worked examples\<close>

text \<open>
  The inputs of the examples below, and the answers of the libraries on the strings the
  examples pass to them. Scenario A is the statement with one transaction dated
  \<^verbatim>\<open>03/25/2016\<close>, amount \<^verbatim>\<open>-50.00\<close>, memo \<^verbatim>\<open>Grocery\<close>.
\<close>

definition scenario_A :: txn where
  "scenario_A = [''Date'' \<mapsto> ''03/25/2016'', ''Amount'' \<mapsto> ''-50.00'', ''Memo'' \<mapsto> ''Grocery'']"

text \<open>Two transactions whose dates cannot be read.\<close>

definition bad_letters :: txn where
  "bad_letters = [''Date'' \<mapsto> ''abc'', ''Amount'' \<mapsto> ''-50.00'']"

definition bad_numbers :: txn where
  "bad_numbers = [''Date'' \<mapsto> ''13/45/2016'', ''Amount'' \<mapsto> ''-50.00'']"

text \<open>
  A transaction whose year does not fit a machine integer, one dated in euros on a day
  that cannot be a month, and one whose date begins with the name of the month.
\<close>

definition overflow_txn :: txn where
  "overflow_txn = [''Date'' \<mapsto> ''1/1/99999999999999999999'', ''Amount'' \<mapsto> ''-50.00'']"

definition euro_txn :: txn where
  "euro_txn = [''Date'' \<mapsto> ''03/25/2016'', ''Amount'' \<mapsto> ''-50.00'', ''Currency'' \<mapsto> ''^EUR'']"

definition named_month_txn :: txn where
  "named_month_txn = [''Date'' \<mapsto> ''Mar 25 2016'', ''Amount'' \<mapsto> ''-50.00'']"

text \<open>
  \<^verbatim>\<open>03/25/2016\<close> and \<^verbatim>\<open>Mar 25 2016\<close> are 25 March 2016 under either convention, 25 being
  no month; \<^verbatim>\<open>13/45/2016\<close> is a date under neither; on \<^verbatim>\<open>1/1/99999999999999999999\<close> the
  library raises \<^verbatim>\<open>OverflowError\<close>. No example passes the library another string.
\<close>

definition dateutil_table :: dateutil where
  "dateutil_table s df =
     (if s = ''03/25/2016'' \<or> s = ''Mar 25 2016''
        then Parsed \<lparr>year = 2016, month = 3, day = 25\<rparr>
      else if s = ''1/1/99999999999999999999'' then RaisesOther
      else if s = ''13/45/2016'' then RaisesValueError
      else RaisesValueError)"

text \<open>\<^verbatim>\<open>-50.00\<close> has two fractional digits already; no example converts another string.\<close>

definition decimal_table :: quantize where
  "decimal_table s = (if s = ''-50.00'' then Some ''-50.00'' else None)"

text \<open>
  Three documents: one whose header declares \<^verbatim>\<open>DATE\<close>, \<^verbatim>\<open>AMOUNT\<close> and \<^verbatim>\<open>MEMO\<close>, with
  the transaction of scenario A; one whose header declares no \<^verbatim>\<open>DATE\<close> column; and one
  with two transaction blocks, the overflowing date first and the named month second.
\<close>

definition iif_dated :: string where
  "iif_dated =
     ''!TRNS'' @ [CHR 0x09] @ ''DATE'' @ [CHR 0x09] @ ''AMOUNT'' @ [CHR 0x09] @ ''MEMO'' @ [CHR 0x0A]
     @ ''!SPL'' @ [CHR 0x09] @ ''DATE'' @ [CHR 0x09] @ ''AMOUNT'' @ [CHR 0x09] @ ''MEMO'' @ [CHR 0x0A]
     @ ''!ENDTRNS'' @ [CHR 0x0A]
     @ ''TRNS'' @ [CHR 0x09] @ ''03/25/2016'' @ [CHR 0x09] @ ''-50.00'' @ [CHR 0x09] @ ''Grocery'' @ [CHR 0x0A]
     @ ''SPL'' @ [CHR 0x09] @ ''03/25/2016'' @ [CHR 0x09] @ ''50.00'' @ [CHR 0x09] @ ''Grocery'' @ [CHR 0x0A]
     @ ''ENDTRNS'' @ [CHR 0x0A]"

definition iif_undated :: string where
  "iif_undated =
     ''!TRNS'' @ [CHR 0x09] @ ''AMOUNT'' @ [CHR 0x09] @ ''MEMO'' @ [CHR 0x0A]
     @ ''!SPL'' @ [CHR 0x09] @ ''AMOUNT'' @ [CHR 0x09] @ ''MEMO'' @ [CHR 0x0A]
     @ ''!ENDTRNS'' @ [CHR 0x0A]
     @ ''TRNS'' @ [CHR 0x09] @ ''-50.00'' @ [CHR 0x09] @ ''Grocery'' @ [CHR 0x0A]
     @ ''SPL'' @ [CHR 0x09] @ ''50.00'' @ [CHR 0x09] @ ''Grocery'' @ [CHR 0x0A]
     @ ''ENDTRNS'' @ [CHR 0x0A]"

definition iif_overflow :: string where
  "iif_overflow =
     ''!TRNS'' @ [CHR 0x09] @ ''DATE'' @ [CHR 0x09] @ ''AMOUNT'' @ [CHR 0x0A]
     @ ''!SPL'' @ [CHR 0x09] @ ''DATE'' @ [CHR 0x09] @ ''AMOUNT'' @ [CHR 0x0A]
     @ ''!ENDTRNS'' @ [CHR 0x0A]
     @ ''TRNS'' @ [CHR 0x09] @ ''1/1/99999999999999999999'' @ [CHR 0x09] @ ''-50.00'' @ [CHR 0x0A]
     @ ''SPL'' @ [CHR 0x09] @ ''1/1/99999999999999999999'' @ [CHR 0x09] @ ''50.00'' @ [CHR 0x0A]
     @ ''ENDTRNS'' @ [CHR 0x0A]
     @ ''TRNS'' @ [CHR 0x09] @ ''Mar 25 2016'' @ [CHR 0x09] @ ''-50.00'' @ [CHR 0x0A]
     @ ''SPL'' @ [CHR 0x09] @ ''Mar 25 2016'' @ [CHR 0x09] @ ''50.00'' @ [CHR 0x0A]
     @ ''ENDTRNS'' @ [CHR 0x0A]"

definition grammar_table :: grammar where
  "grammar_table iif =
     (if iif = iif_dated then
        Inr [\<lparr>TRNS_FLDS = [''DATE'', ''AMOUNT'', ''MEMO''],
              SPL_FLDS = [''DATE'', ''AMOUNT'', ''MEMO''],
              TRNS = [\<lparr>TRN = [''03/25/2016'', ''-50.00'', ''Grocery''],
                       SPL = [[''03/25/2016'', ''50.00'', ''Grocery'']]\<rparr>]\<rparr>]
      else if iif = iif_undated then
        Inr [\<lparr>TRNS_FLDS = [''AMOUNT'', ''MEMO''],
              SPL_FLDS = [''AMOUNT'', ''MEMO''],
              TRNS = [\<lparr>TRN = [''-50.00'', ''Grocery''],
                       SPL = [[''50.00'', ''Grocery'']]\<rparr>]\<rparr>]
      else if iif = iif_overflow then
        Inr [\<lparr>TRNS_FLDS = [''DATE'', ''AMOUNT''],
              SPL_FLDS = [''DATE'', ''AMOUNT''],
              TRNS = [\<lparr>TRN = [''1/1/99999999999999999999'', ''-50.00''],
                       SPL = [[''1/1/99999999999999999999'', ''50.00'']]\<rparr>,
                      \<lparr>TRN = [''Mar 25 2016'', ''-50.00''],
                       SPL = [[''Mar 25 2016'', ''50.00'']]\<rparr>]\<rparr>]
      else Inl ParseException)"

section \<open>Evaluation\<close>

lemmas str_defs = ord_def isdigit_def isspace_def isalpha_def isalpha_char_def upper_def
  upper_char_def strip_def startswith_def search_digits_def get_def char_of_eq_iff

lemmas date_defs = parse_date_def check_date_format_def py_int_def int_digits_ok_def
  digits_value_def int_strip_def int_space_def

lemmas clean_defs = clean_txn_def clean_txn_date_def clean_txn_amount_def clean_txn_number_def
  clean_txn_type_def clean_txn_payee_def txn_sign_def strftime_Ymd_def year_digits_def
  digit_char_def

section \<open>Construction\<close>

lemma check_date_format_fields:
  "check_date_format conv pd d = Inr conv' \<Longrightarrow>
     txns_by_date conv' = txns_by_date conv \<and> start_date conv' = start_date conv
     \<and> end_date conv' = end_date conv \<and> accttype conv' = accttype conv"
  by (auto simp: check_date_format_def split: if_splits option.splits)

lemma guess_formats_fields:
  "guess_formats P conv txn_list = Inr conv' \<Longrightarrow>
     txns_by_date conv' = txns_by_date conv \<and> start_date conv' = start_date conv
     \<and> end_date conv' = end_date conv \<and> accttype conv' = accttype conv"
proof (induction txn_list arbitrary: conv)
  case Nil
  then show ?case by simp
next
  case (Cons txn rest)
  from Cons.prems obtain pd c1 where
    c1: "check_date_format conv pd (get txn ''Date'' ''UNKNOWN'') = Inr c1"
    and rest: "guess_formats P
        (if curdef c1 = None \<and> get txn ''Currency'' ''UNKNOWN'' = ''^EUR''
         then c1\<lparr>curdef := Some ''EUR''\<rparr> else c1) rest = Inr conv'"
    by (auto simp: Let_def split: sum.splits)
  from Cons.IH [OF rest] check_date_format_fields [OF c1] show ?case
    by (simp split: if_splits)
qed

lemma extract_dated:
  "extract_txn_list
     [\<lparr>TRNS_FLDS = [''DATE'', ''AMOUNT'', ''MEMO''],
       SPL_FLDS = [''DATE'', ''AMOUNT'', ''MEMO''],
       TRNS = [\<lparr>TRN = [''03/25/2016'', ''-50.00'', ''Grocery''],
                SPL = [[''03/25/2016'', ''50.00'', ''Grocery'']]\<rparr>]\<rparr>]
   = Inr [scenario_A]"
  by (simp add: extract_txn_list_def get_txn_list_def trns_items_def scenario_A_def)

lemma guess_formats_scenario_A:
  "guess_formats dateutil_table (new_converter ''CHECKING'' None False) [scenario_A]
     = Inr (new_converter ''CHECKING'' None False)"
  by (simp add: scenario_A_def date_defs dateutil_table_def str_defs new_converter_def)

lemma init_dated:
  "IifConverter_init grammar_table dateutil_table iif_dated ''CHECKING'' None False
     = Inr (new_converter ''CHECKING'' None False)"
  by (simp add: IifConverter_init_def grammar_table_def extract_dated guess_formats_scenario_A
      del: guess_formats.simps)

text \<open>
  C1. The claim: constructing a conversion runs the whole pipeline, so that afterwards the
  surviving transactions are normalized and stored in \<open>txns_by_date\<close> and the start and end
  dates are computed. The constructor stops after the format-detection pass: whenever it
  returns, \<open>txns_by_date\<close> is empty and neither date has been assigned.
\<close>

theorem init_stops_after_first_pass:
  "IifConverter_init G P iif at cd df = Inr conv \<Longrightarrow>
     txns_by_date conv = [] \<and> start_date conv = None \<and> end_date conv = None"
  by (auto simp: IifConverter_init_def new_converter_def split: sum.splits
      dest!: guess_formats_fields)

text \<open>The document with the transaction of scenario A is constructed so.\<close>

theorem init_stops_after_first_pass_witness:
  "IifConverter_init grammar_table dateutil_table iif_dated ''CHECKING'' None False
     = Inr (new_converter ''CHECKING'' None False)
   \<and> txns_by_date (new_converter ''CHECKING'' None False) = []
   \<and> start_date (new_converter ''CHECKING'' None False) = None
   \<and> end_date (new_converter ''CHECKING'' None False) = None"
  using init_dated init_stops_after_first_pass [OF init_dated] by simp

section \<open>The format-detection pass\<close>

lemma guess_formats_append:
  "guess_formats P conv (xs @ ys) =
     (case guess_formats P conv xs of Inl e \<Rightarrow> Inl e | Inr conv' \<Rightarrow> guess_formats P conv' ys)"
  by (induction xs arbitrary: conv) (auto simp: Let_def split: sum.splits)

text \<open>
  C2, as stated: the format-detection pass never raises, a date that fails to parse being
  skipped. It fails on the list whose first transaction is dated \<^verbatim>\<open>abc\<close>: the pass raises
  the \<^verbatim>\<open>ValueError\<close> of \<^verbatim>\<open>_parse_date\<close>.
\<close>

theorem guess_formats_raises_counterexample:
  "guess_formats dateutil_table (new_converter ''CHECKING'' None False)
     [[''Date'' \<mapsto> ''abc''], scenario_A] = Inl (unrecognized ''abc'')"
  by (simp add: parse_date_def str_defs)

text \<open>When the pass returns, the state it ends in is the converter it returns.\<close>

lemma guess_formats_state_returned:
  "guess_formats P conv xs = Inr c \<Longrightarrow> guess_formats_state P conv xs = c"
  by (induction xs arbitrary: conv) (auto simp: Let_def split: sum.splits)

lemma guess_formats_state_append:
  "guess_formats P conv xs = Inr c \<Longrightarrow>
     guess_formats_state P conv (xs @ ys) = guess_formats_state P c ys"
  by (induction xs arbitrary: conv) (auto simp: Let_def split: sum.splits)

lemma guess_formats_euro:
  "guess_formats dateutil_table (new_converter ''CHECKING'' None False) [euro_txn]
     = Inr (new_converter ''CHECKING'' (Some ''EUR'') False)"
  by (simp add: euro_txn_def date_defs dateutil_table_def str_defs new_converter_def)

lemma parse_date_bad_numbers_pass1:
  "parse_date dateutil_table (get bad_numbers ''Date'' ''UNKNOWN'') False
     = Inl (unrecognized ''13/45/2016'')"
  by (simp add: bad_numbers_def parse_date_def dateutil_table_def str_defs)

text \<open>
  C2, amended: a transaction whose date string fails to parse is fatal to the
  format-detection pass. Once the transactions before it have been scanned, the exception
  of \<^verbatim>\<open>_parse_date\<close> leaves the pass, so no later transaction is scanned; and the pass ends
  with the converter as the transactions before had left it: the failing transaction
  changes neither the day-first flag nor the default currency.
\<close>

theorem guess_formats_parse_failure_is_fatal:
  assumes "guess_formats P conv before = Inr conv'"
    and "parse_date P (get txn ''Date'' ''UNKNOWN'') False = Inl e"
  shows "guess_formats P conv (before @ txn # after) = Inl e
    \<and> guess_formats_state P conv (before @ txn # after) = conv'"
  using assms by (simp add: guess_formats_append guess_formats_state_append)

text \<open>
  A statement in euros whose second transaction is dated \<^verbatim>\<open>13/45/2016\<close>: the pass raises
  at the second transaction, with the currency the first one had set.
\<close>

theorem guess_formats_parse_failure_is_fatal_witness:
  "guess_formats dateutil_table (new_converter ''CHECKING'' None False) [euro_txn]
     = Inr (new_converter ''CHECKING'' (Some ''EUR'') False)
   \<and> parse_date dateutil_table (get bad_numbers ''Date'' ''UNKNOWN'') False
     = Inl (unrecognized ''13/45/2016'')
   \<and> guess_formats dateutil_table (new_converter ''CHECKING'' None False)
       ([euro_txn] @ bad_numbers # [scenario_A])
     = Inl (unrecognized ''13/45/2016'')
   \<and> guess_formats_state dateutil_table (new_converter ''CHECKING'' None False)
       ([euro_txn] @ bad_numbers # [scenario_A])
     = new_converter ''CHECKING'' (Some ''EUR'') False"
  using guess_formats_euro parse_date_bad_numbers_pass1
    guess_formats_parse_failure_is_fatal [OF guess_formats_euro parse_date_bad_numbers_pass1,
      of "[scenario_A]"]
  by simp

lemma py_int_empty: "py_int [] = None"
  by (simp add: py_int_def int_strip_def int_digits_ok_def)

lemma check_date_format_no_digit:
  "\<not> isdigit c \<Longrightarrow> check_date_format conv pd (c # s) = Inl (int_error [])"
  by (simp add: check_date_format_def py_int_empty)

lemma parse_date_errors:
  "parse_date P d df = Inl e \<Longrightarrow>
     e = unrecognized d \<or> (e = LibraryError \<and> P d df = RaisesOther)"
  by (auto simp: parse_date_def split: if_splits dateutil_result.splits option.splits)

lemma guess_formats_head_no_digit:
  assumes "txn ''Date'' = None \<or> (\<exists>c s. txn ''Date'' = Some (c # s) \<and> \<not> isdigit c)"
  shows "\<exists>e. guess_formats P conv (txn # rest) = Inl e"
proof -
  from assms have "\<exists>c s. get txn ''Date'' ''UNKNOWN'' = c # s \<and> \<not> isdigit c"
    by (auto simp: get_def isdigit_def ord_def)
  then obtain c s where d: "get txn ''Date'' ''UNKNOWN'' = c # s" and c: "\<not> isdigit c"
    by blast
  show ?thesis
    by (cases "parse_date P (c # s) False")
       (simp_all add: d Let_def check_date_format_no_digit [OF c])
qed

lemma guess_formats_aborts:
  assumes "txn \<in> set txn_list"
    and "txn ''Date'' = None \<or> (\<exists>c s. txn ''Date'' = Some (c # s) \<and> \<not> isdigit c)"
  shows "\<exists>e. guess_formats P conv txn_list = Inl e"
  using assms(1)
proof (induction txn_list arbitrary: conv)
  case Nil
  then show ?case by simp
next
  case (Cons t rest)
  show ?case
  proof (cases "t = txn")
    case True
    with guess_formats_head_no_digit [of txn P conv rest] assms(2) show ?thesis by simp
  next
    case False
    with Cons.prems have "txn \<in> set rest" by simp
    from Cons.IH [OF this] show ?thesis
      by (auto simp: Let_def split: sum.splits)
  qed
qed

text \<open>
  An exception that leaves the pass is a \<^verbatim>\<open>ValueError\<close>, unless the date library itself
  raised something else on one of the date strings.
\<close>

lemma guess_formats_errors:
  "guess_formats P conv txn_list = Inl e \<Longrightarrow>
     (\<exists>m. e = ValueError m)
     \<or> (\<exists>t \<in> set txn_list. P (get t ''Date'' ''UNKNOWN'') False = RaisesOther)"
proof (induction txn_list arbitrary: conv)
  case Nil
  then show ?case by simp
next
  case (Cons t rest)
  show ?case
  proof (cases "parse_date P (get t ''Date'' ''UNKNOWN'') False")
    case (Inl e')
    with Cons.prems have "e = e'" by (simp add: Let_def)
    with parse_date_errors [OF Inl] show ?thesis
      by (auto simp: unrecognized_def)
  next
    case (Inr pd)
    show ?thesis
    proof (cases "check_date_format conv pd (get t ''Date'' ''UNKNOWN'')")
      case (Inl e')
      with Inr Cons.prems have "e = e'" by (simp add: Let_def)
      with Inl show ?thesis
        by (auto simp: check_date_format_def int_error_def split: if_splits option.splits)
    next
      case (Inr c1)
      with \<open>parse_date P (get t ''Date'' ''UNKNOWN'') False = Inr pd\<close> Cons.prems
      have "guess_formats P
        (if curdef c1 = None \<and> get t ''Currency'' ''UNKNOWN'' = ''^EUR''
         then c1\<lparr>curdef := Some ''EUR''\<rparr> else c1) rest = Inl e"
        by (simp add: Let_def)
      from Cons.IH [OF this] show ?thesis by auto
    qed
  qed
qed

lemma extract_undated:
  "extract_txn_list
     [\<lparr>TRNS_FLDS = [''AMOUNT'', ''MEMO''],
       SPL_FLDS = [''AMOUNT'', ''MEMO''],
       TRNS = [\<lparr>TRN = [''-50.00'', ''Grocery''],
                SPL = [[''50.00'', ''Grocery'']]\<rparr>]\<rparr>]
   = Inr [[''Amount'' \<mapsto> ''-50.00'', ''Memo'' \<mapsto> ''Grocery'']]"
  by (simp add: extract_txn_list_def get_txn_list_def trns_items_def)

lemma grammar_undated:
  "grammar_table iif_undated =
     Inr [\<lparr>TRNS_FLDS = [''AMOUNT'', ''MEMO''],
           SPL_FLDS = [''AMOUNT'', ''MEMO''],
           TRNS = [\<lparr>TRN = [''-50.00'', ''Grocery''],
                    SPL = [[''50.00'', ''Grocery'']]\<rparr>]\<rparr>]"
  by (simp add: grammar_table_def iif_undated_def iif_dated_def)

lemma extract_overflow:
  "extract_txn_list
     [\<lparr>TRNS_FLDS = [''DATE'', ''AMOUNT''],
       SPL_FLDS = [''DATE'', ''AMOUNT''],
       TRNS = [\<lparr>TRN = [''1/1/99999999999999999999'', ''-50.00''],
                SPL = [[''1/1/99999999999999999999'', ''50.00'']]\<rparr>,
               \<lparr>TRN = [''Mar 25 2016'', ''-50.00''],
                SPL = [[''Mar 25 2016'', ''50.00'']]\<rparr>]\<rparr>]
   = Inr [overflow_txn, named_month_txn]"
  by (simp add: extract_txn_list_def get_txn_list_def trns_items_def overflow_txn_def
      named_month_txn_def)

lemma grammar_overflow:
  "grammar_table iif_overflow =
     Inr [\<lparr>TRNS_FLDS = [''DATE'', ''AMOUNT''],
           SPL_FLDS = [''DATE'', ''AMOUNT''],
           TRNS = [\<lparr>TRN = [''1/1/99999999999999999999'', ''-50.00''],
                    SPL = [[''1/1/99999999999999999999'', ''50.00'']]\<rparr>,
                   \<lparr>TRN = [''Mar 25 2016'', ''-50.00''],
                    SPL = [[''Mar 25 2016'', ''50.00'']]\<rparr>]\<rparr>]"
  by (simp add: grammar_table_def iif_overflow_def iif_undated_def iif_dated_def)

lemma guess_formats_overflow:
  "guess_formats dateutil_table conv (overflow_txn # rest) = Inl LibraryError"
  by (simp add: overflow_txn_def parse_date_def dateutil_table_def str_defs)

text \<open>
  C9, as stated: if some extracted transaction has no \<open>Date\<close> field, or a date whose first
  character is not a digit, the format-detection pass raises a \<^verbatim>\<open>ValueError\<close>. It fails on
  the document whose second transaction is dated \<^verbatim>\<open>Mar 25 2016\<close> and whose first has a
  year that overflows: the pass and the construction end with the library's own
  exception, which is no \<^verbatim>\<open>ValueError\<close>.
\<close>

theorem init_raises_other_counterexample:
  "named_month_txn ''Date'' = Some ''Mar 25 2016'' \<and> \<not> isdigit CHR ''M''
   \<and> extract_txn_list (projr (grammar_table iif_overflow)) = Inr [overflow_txn, named_month_txn]
   \<and> guess_formats dateutil_table (new_converter ''CHECKING'' None False)
       [overflow_txn, named_month_txn] = Inl LibraryError
   \<and> IifConverter_init grammar_table dateutil_table iif_overflow ''CHECKING'' None False
     = Inl LibraryError"
  by (simp add: IifConverter_init_def grammar_overflow extract_overflow guess_formats_overflow
      del: guess_formats.simps)
     (simp add: named_month_txn_def str_defs)

text \<open>
  C9, amended: if some extracted transaction has no \<open>Date\<close> field, or a date whose first
  character is not a digit, the format-detection pass raises and construction aborts with
  that exception: \<^verbatim>\<open>_check_date_format\<close> converts the empty prefix of digits with \<^verbatim>\<open>int()\<close>
  before it looks at the parsed date. The exception is a \<^verbatim>\<open>ValueError\<close> provided the date
  library raises nothing but \<^verbatim>\<open>ValueError\<close> on the date strings of the list; an exception
  of another class that the library raises leaves the pass as it is.
\<close>

theorem init_aborts_without_leading_digit:
  assumes "G iif = Inr sections" and "extract_txn_list sections = Inr txn_list"
    and "txn \<in> set txn_list"
    and "txn ''Date'' = None \<or> (\<exists>c s. txn ''Date'' = Some (c # s) \<and> \<not> isdigit c)"
  shows "(\<exists>e. guess_formats P (new_converter at cd df) txn_list = Inl e
              \<and> IifConverter_init G P iif at cd df = Inl e)
    \<and> ((\<forall>t \<in> set txn_list. P (get t ''Date'' ''UNKNOWN'') False \<noteq> RaisesOther) \<longrightarrow>
        (\<exists>m. IifConverter_init G P iif at cd df = Inl (ValueError m)))"
proof -
  from guess_formats_aborts [OF assms(3,4)] obtain e where
    e: "guess_formats P (new_converter at cd df) txn_list = Inl e" by blast
  then have i: "IifConverter_init G P iif at cd df = Inl e"
    by (simp add: IifConverter_init_def assms(1,2))
  from guess_formats_errors [OF e] i e show ?thesis by auto
qed

text \<open>The document whose header declares no \<^verbatim>\<open>DATE\<close> column cannot be constructed.\<close>

theorem init_aborts_without_leading_digit_witness:
  "[''Amount'' \<mapsto> ''-50.00'', ''Memo'' \<mapsto> ''Grocery''] ''Date'' = None
   \<and> IifConverter_init grammar_table dateutil_table iif_undated ''CHECKING'' None False
     = Inl (int_error [])"
proof -
  let ?t = "[''Amount'' \<mapsto> ''-50.00'', ''Memo'' \<mapsto> ''Grocery'']"
  have m: "?t \<in> set [?t]" by simp
  have d: "?t ''Date'' = None \<or> (\<exists>c s. ?t ''Date'' = Some (c # s) \<and> \<not> isdigit c)"
    by simp
  have p: "\<forall>t \<in> set [?t]. dateutil_table (get t ''Date'' ''UNKNOWN'') False \<noteq> RaisesOther"
    by (simp add: dateutil_table_def get_def)
  from init_aborts_without_leading_digit [of grammar_table iif_undated _ "[?t]" ?t
      dateutil_table "''CHECKING''" None False] grammar_undated extract_undated m d p
  have "\<exists>m. IifConverter_init grammar_table dateutil_table iif_undated ''CHECKING'' None False
              = Inl (ValueError m)"
    by blast
  moreover have "guess_formats dateutil_table (new_converter ''CHECKING'' None False) [?t]
      = Inl (int_error [])"
    by (simp add: parse_date_def check_date_format_no_digit str_defs)
  ultimately show ?thesis
    by (simp add: IifConverter_init_def grammar_undated extract_undated)
qed

section \<open>Scenario A\<close>

text \<open>
  C3, as stated: the transaction of scenario A, normalized on an account that is not a
  credit card with the day-first flag off, gets the payee \<^verbatim>\<open>Other Debit (Grocery)\<close>. It
  does not: the memo is present, so the payee becomes the memo before the rule for
  \<^verbatim>\<open>Other Debit\<close> is reached, and the memo is then appended in parentheses.
\<close>

theorem scenario_A_payee_counterexample:
  "\<not> isl (clean_txn dateutil_table decimal_table (new_converter ''CHECKING'' None False) scenario_A)
   \<and> projr (clean_txn dateutil_table decimal_table (new_converter ''CHECKING'' None False) scenario_A)
       ''Payee'' = Some ''Grocery (Grocery)''"
  by (simp add: clean_defs scenario_A_def parse_date_def dateutil_table_def decimal_table_def
      new_converter_def txn_types_def str_defs)

text \<open>
  C3, amended: under the same conditions the normalized transaction has Date
  \<^verbatim>\<open>20160325\<close>, Amount \<^verbatim>\<open>-50.00\<close>, Type \<^verbatim>\<open>DEBIT\<close> and Payee \<^verbatim>\<open>Grocery (Grocery)\<close>. The
  two library answers the scenario relies on are hypotheses.
\<close>

theorem scenario_A_normalized:
  assumes "accttype conv \<noteq> ''CREDITCARD''" and "\<not> dayfirst conv"
    and "P ''03/25/2016'' False = Parsed \<lparr>year = 2016, month = 3, day = 25\<rparr>"
    and "Q ''-50.00'' = Some ''-50.00''"
  shows "\<exists>t. clean_txn P Q conv scenario_A = Inr t
           \<and> t ''Date'' = Some ''20160325'' \<and> t ''Amount'' = Some ''-50.00''
           \<and> t ''Type'' = Some ''DEBIT'' \<and> t ''Payee'' = Some ''Grocery (Grocery)''"
  using assms
  by (simp add: clean_defs scenario_A_def parse_date_def txn_types_def str_defs)

theorem scenario_A_normalized_witness:
  "accttype (new_converter ''CHECKING'' None False) \<noteq> ''CREDITCARD''
   \<and> \<not> dayfirst (new_converter ''CHECKING'' None False)
   \<and> (\<exists>t. clean_txn dateutil_table decimal_table (new_converter ''CHECKING'' None False) scenario_A
            = Inr t
          \<and> t ''Date'' = Some ''20160325'' \<and> t ''Amount'' = Some ''-50.00''
          \<and> t ''Type'' = Some ''DEBIT'' \<and> t ''Payee'' = Some ''Grocery (Grocery)'')"
proof -
  have a: "accttype (new_converter ''CHECKING'' None False) \<noteq> ''CREDITCARD''"
    and d: "\<not> dayfirst (new_converter ''CHECKING'' None False)"
    by (simp_all add: new_converter_def)
  have p: "dateutil_table ''03/25/2016'' False = Parsed \<lparr>year = 2016, month = 3, day = 25\<rparr>"
    by (simp add: dateutil_table_def)
  have q: "decimal_table ''-50.00'' = Some ''-50.00''"
    by (simp add: decimal_table_def)
  from a d p q
    scenario_A_normalized [of "new_converter ''CHECKING'' None False" dateutil_table decimal_table]
  show ?thesis by blast
qed

section \<open>The alias table and the type step\<close>

text \<open>
  C4. The claim: a type that matches a key of the alias table without regard to case is
  replaced by the table's value for that key, so \<open>DBT\<close> becomes \<open>DEBIT\<close> and \<open>DEPOSIT\<close>
  becomes \<open>DEP\<close>. The type step stores the upper-cased key itself and never reads the
  value column: \<open>DBT\<close> stays \<open>DBT\<close> and \<open>DEPOSIT\<close> stays \<open>DEPOSIT\<close>, although the table
  maps them to \<open>DEBIT\<close> and \<open>DEP\<close>.
\<close>

theorem clean_txn_type_keeps_alias_key:
  "clean_txn_type [''Type'' \<mapsto> ''DBT''] ''Type'' = Some ''DBT''
   \<and> map_of txn_types ''DBT'' = Some ''DEBIT''
   \<and> clean_txn_type [''Type'' \<mapsto> ''DEPOSIT''] ''Type'' = Some ''DEPOSIT''
   \<and> map_of txn_types ''DEPOSIT'' = Some ''DEP''"
  by (simp add: clean_txn_type_def str_defs txn_types_def)


section \<open>The check-number step\<close>

text \<open>
  C7. The claim: for a number that is present and not removed by the drop rules, the
  check-number step sets the type to \<open>CHECK\<close> exactly when the number is entirely numeric.
  The step searches the number for a run of digits instead of matching all of it, so one
  digit anywhere is enough: the number \<^verbatim>\<open>A1\<close> on a checking account makes the
  transaction a check.
\<close>

theorem clean_txn_number_checks_any_digit:
  "clean_txn_number (new_converter ''CHECKING'' None False) [''Number'' \<mapsto> ''A1''] ''Type''
     = Some ''CHECK''
   \<and> \<not> list_all isdigit ''A1''"
  by (simp add: clean_txn_number_def new_converter_def str_defs)

section \<open>The normalization pass\<close>

lemma clean_txn_bad_letters:
  "clean_txn P Q conv bad_letters = Inl (unrecognized ''abc'')"
  by (simp add: bad_letters_def clean_txn_def clean_txn_date_def parse_date_def str_defs)

lemma clean_txn_bad_numbers:
  "clean_txn dateutil_table Q conv bad_numbers = Inl (unrecognized ''13/45/2016'')"
  by (simp add: bad_numbers_def clean_txn_def clean_txn_date_def parse_date_def
      dateutil_table_def str_defs)

lemma clean_txn_scenario_A:
  "clean_txn dateutil_table decimal_table (new_converter ''CHECKING'' None False) scenario_A
     = Inr (scenario_A(''Date'' \<mapsto> ''20160325'', ''Type'' \<mapsto> ''DEBIT'',
                       ''Payee'' \<mapsto> ''Grocery (Grocery)''))"
  by (simp add: clean_defs scenario_A_def parse_date_def dateutil_table_def decimal_table_def
      new_converter_def txn_types_def str_defs fun_eq_iff)

lemma clean_loop_three:
  "clean_loop dateutil_table decimal_table (new_converter ''CHECKING'' None False)
     [bad_letters, bad_numbers, scenario_A]
   = Inr ((new_converter ''CHECKING'' None False)
       \<lparr>txns_by_date :=
          [(''20160325'', [scenario_A(''Date'' \<mapsto> ''20160325'', ''Type'' \<mapsto> ''DEBIT'',
                                       ''Payee'' \<mapsto> ''Grocery (Grocery)'')])]\<rparr>)"
proof -
  have i: "txns_by_date (new_converter ''CHECKING'' None False) = []"
    by (simp add: new_converter_def)
  show ?thesis
    by (simp add: clean_txn_bad_letters clean_txn_bad_numbers clean_txn_scenario_A
        unrecognized_def get_list_def i)
qed

text \<open>
  C5, as stated: in the normalization pass a date string that cannot be parsed aborts the
  whole conversion. It does not: in a statement of three transactions, the first dated
  \<^verbatim>\<open>abc\<close> and the second \<^verbatim>\<open>13/45/2016\<close>, both are skipped, the pass returns, and the
  third transaction is indexed under its date.
\<close>

theorem unparsed_date_aborts_counterexample:
  "\<not> isl (clean_txn_list dateutil_table decimal_table ''20161104''
            (new_converter ''CHECKING'' None False) [bad_letters, bad_numbers, scenario_A])
   \<and> map fst (txns_by_date (projr (clean_txn_list dateutil_table decimal_table ''20161104''
            (new_converter ''CHECKING'' None False) [bad_letters, bad_numbers, scenario_A])))
     = [''20160325'']"
  by (simp add: clean_txn_list_def clean_loop_three del: clean_loop.simps)

text \<open>
  C5, amended: in the normalization pass, take a transaction with a present date that is
  not the placeholder. If the stripped date is all letters, or the date library answers
  it with \<^verbatim>\<open>ValueError\<close> and the retry with slashes (made for a string of 8 characters
  that \<^verbatim>\<open>int()\<close> accepts) gives no date either, then \<^verbatim>\<open>_clean_txn\<close> raises a \<^verbatim>\<open>ValueError\<close>
  that names the stripped date; the loop over the transactions catches it, does not store
  the transaction, and goes on with the next one from the same state. If the library
  raises an exception of another class on the date, nothing catches it and the pass
  aborts with it.
\<close>

theorem unparsed_date_skipped_or_fatal:
  assumes "strip (get txn ''Date'' ''UNKNOWN'') = d" and "d \<noteq> ''UNKNOWN''"
  shows "(isalpha d
          \<or> P d (dayfirst conv) = RaisesValueError
            \<and> (length d = 8 \<and> py_int d \<noteq> None \<longrightarrow>
                 (\<forall>x. P (slashified d) (dayfirst conv) \<noteq> Parsed x))
          \<longrightarrow> clean_txn P Q conv txn = Inl (unrecognized d)
              \<and> clean_loop P Q conv (txn # rest) = clean_loop P Q conv rest)
    \<and> (\<not> isalpha d \<and> P d (dayfirst conv) = RaisesOther
          \<longrightarrow> clean_txn P Q conv txn = Inl LibraryError
              \<and> clean_loop P Q conv (txn # rest) = Inl LibraryError
              \<and> clean_txn_list P Q today conv (txn # rest) = Inl LibraryError)"
proof (intro conjI impI)
  assume "isalpha d
          \<or> P d (dayfirst conv) = RaisesValueError
            \<and> (length d = 8 \<and> py_int d \<noteq> None \<longrightarrow>
                 (\<forall>x. P (slashified d) (dayfirst conv) \<noteq> Parsed x))"
  with assms(2) have "parse_date P d (dayfirst conv) = Inl (unrecognized d)"
    by (auto simp: parse_date_def split: option.splits dateutil_result.splits)
  with assms show "clean_txn P Q conv txn = Inl (unrecognized d)"
    by (simp add: clean_txn_def clean_txn_date_def)
  then show "clean_loop P Q conv (txn # rest) = clean_loop P Q conv rest"
    by (simp add: unrecognized_def)
next
  assume "\<not> isalpha d \<and> P d (dayfirst conv) = RaisesOther"
  with assms(2) have "parse_date P d (dayfirst conv) = Inl LibraryError"
    by (simp add: parse_date_def)
  with assms show "clean_txn P Q conv txn = Inl LibraryError"
    by (simp add: clean_txn_def clean_txn_date_def)
  then show "clean_loop P Q conv (txn # rest) = Inl LibraryError"
    by simp
  then show "clean_txn_list P Q today conv (txn # rest) = Inl LibraryError"
    by (simp add: clean_txn_list_def del: clean_loop.simps)
qed

text \<open>
  The transaction dated \<^verbatim>\<open>13/45/2016\<close> is skipped; the one whose year overflows aborts
  the pass.
\<close>

theorem unparsed_date_skipped_or_fatal_witness:
  "clean_txn dateutil_table decimal_table (new_converter ''CHECKING'' None False) bad_numbers
     = Inl (unrecognized ''13/45/2016'')
   \<and> clean_loop dateutil_table decimal_table (new_converter ''CHECKING'' None False)
       (bad_numbers # [scenario_A])
     = clean_loop dateutil_table decimal_table (new_converter ''CHECKING'' None False) [scenario_A]
   \<and> clean_txn_list dateutil_table decimal_table ''20161104''
       (new_converter ''CHECKING'' None False) (overflow_txn # [scenario_A])
     = Inl LibraryError"
proof -
  let ?c = "new_converter ''CHECKING'' None False"
  have s1: "strip (get bad_numbers ''Date'' ''UNKNOWN'') = ''13/45/2016''"
    and s2: "strip (get overflow_txn ''Date'' ''UNKNOWN'') = ''1/1/99999999999999999999''"
    by (simp_all add: bad_numbers_def overflow_txn_def str_defs)
  have n1: "''13/45/2016'' \<noteq> ''UNKNOWN''" and n2: "''1/1/99999999999999999999'' \<noteq> ''UNKNOWN''"
    by simp_all
  have h1: "isalpha ''13/45/2016''
      \<or> dateutil_table ''13/45/2016'' (dayfirst ?c) = RaisesValueError
        \<and> (length ''13/45/2016'' = 8 \<and> py_int ''13/45/2016'' \<noteq> None \<longrightarrow>
             (\<forall>x. dateutil_table (slashified ''13/45/2016'') (dayfirst ?c) \<noteq> Parsed x))"
    by (simp add: dateutil_table_def)
  have h2: "\<not> isalpha ''1/1/99999999999999999999''
      \<and> dateutil_table ''1/1/99999999999999999999'' (dayfirst ?c) = RaisesOther"
    by (simp add: dateutil_table_def str_defs)
  from h1 h2
    unparsed_date_skipped_or_fatal [OF s1 n1, where P = dateutil_table and conv = ?c
      and Q = decimal_table and rest = "[scenario_A]"]
    unparsed_date_skipped_or_fatal [OF s2 n2, where P = dateutil_table and conv = ?c
      and Q = decimal_table and rest = "[scenario_A]" and today = "''20161104''"]
  show ?thesis by blast
qed

section \<open>The date range\<close>

text \<open>
  C6. The claim: when no transaction survives normalization, whether the input was empty
  or every transaction was rejected, the start and end dates are both the current date.
  The test after the loop counts the transactions of the input, not those stored: for a
  statement whose only transaction has the amount \<^verbatim>\<open>-\<close>, dated or not, the transaction is
  rejected, the list of dates is empty, and reading its first element raises
  \<^verbatim>\<open>IndexError\<close>.
\<close>

theorem all_rejected_raises_IndexError:
  "clean_txn_list P Q today (new_converter at cd df) [[''Amount'' \<mapsto> ''-'']] = Inl IndexError
   \<and> clean_txn_list dateutil_table Q today (new_converter at cd df)
       [[''Date'' \<mapsto> ''03/25/2016'', ''Amount'' \<mapsto> ''-'']] = Inl IndexError"
  by (simp add: clean_txn_list_def clean_txn_def clean_txn_date_def clean_txn_amount_def
      parse_date_def dateutil_table_def new_converter_def str_defs)

text \<open>
  C8. The claim: a transaction whose amount is exactly \<^verbatim>\<open>-\<close> or a single space is dropped
  and never makes the conversion fail. The loop does drop it, but when it was the only
  transaction of the statement the date range is then read from an empty list of dates
  and the pass raises \<^verbatim>\<open>IndexError\<close>.
\<close>

theorem space_amount_dropped_then_IndexError:
  "clean_loop P Q (new_converter at cd df) [[''Amount'' \<mapsto> '' '']] = Inr (new_converter at cd df)
   \<and> clean_txn_list P Q today (new_converter at cd df) [[''Amount'' \<mapsto> '' '']] = Inl IndexError"
  by (simp add: clean_txn_list_def clean_txn_def clean_txn_date_def clean_txn_amount_def
      new_converter_def str_defs)

end
